theory Spec2Isabelle
  imports Main "HOL-Library.Char_ord" "HOL-Library.List_Lexorder"
begin

section \<open>Python strings\<close>

text \<open>
  A Python \<open>str\<close> is modelled as a \<open>string\<close>: the list of the bytes of its UTF-8
  encoding. \<open>sorted\<close> on strings is the lexicographic order of the lists (UTF-8 keeps the
  order of the code points). Case conversion and white space are those of the ASCII
  characters: a byte above 127 has no case and is not white space.
\<close>

definition isupper :: "char \<Rightarrow> bool" where
  "isupper c = (65 \<le> (of_char c :: nat) \<and> (of_char c :: nat) \<le> 90)"

definition isspace :: "char \<Rightarrow> bool" where
  \<comment> \<open>\<open>str.isspace\<close> below 128: tab, LF, VT, FF, CR, FS, GS, RS, US and the blank\<close>
  "isspace c = ((9 \<le> (of_char c :: nat) \<and> (of_char c :: nat) \<le> 13)
                \<or> (28 \<le> (of_char c :: nat) \<and> (of_char c :: nat) \<le> 32))"

definition lower_char :: "char \<Rightarrow> char" where
  "lower_char c = (if isupper c then char_of ((of_char c :: nat) + 32) else c)"

definition lower :: "string \<Rightarrow> string" where
  \<comment> \<open>\<open>s.lower()\<close>\<close>
  "lower s = map lower_char s"

definition strip :: "string \<Rightarrow> string" where
  \<comment> \<open>\<open>s.strip()\<close>\<close>
  "strip s = rev (dropWhile isspace (rev (dropWhile isspace s)))"

fun split_sep :: "char \<Rightarrow> string \<Rightarrow> string list" where
  \<comment> \<open>\<open>s.split(sep)\<close> for a separator of one character: empty pieces are kept\<close>
  "split_sep sep [] = [[]]"
| "split_sep sep (c # cs) =
     (if c = sep then [] # split_sep sep cs
      else (case split_sep sep cs of
              [] \<Rightarrow> [[c]]
            | w # ws \<Rightarrow> (c # w) # ws))"

fun split_acc :: "string \<Rightarrow> string \<Rightarrow> string list" where
  \<comment> \<open>the scan of \<open>s.split()\<close>; the first argument is the token being read, reversed\<close>
  "split_acc tok [] = (if tok = [] then [] else [rev tok])"
| "split_acc tok (c # cs) =
     (if isspace c then (if tok = [] then split_acc [] cs else rev tok # split_acc [] cs)
      else split_acc (c # tok) cs)"

definition split :: "string \<Rightarrow> string list" where
  \<comment> \<open>\<open>s.split()\<close>: split on runs of white space, no empty token\<close>
  "split s = split_acc [] s"

definition truthy :: "string \<Rightarrow> bool" where
  \<comment> \<open>the truth value of a \<open>str\<close>\<close>
  "truthy s = (s \<noteq> [])"

subsection \<open>urllib.parse\<close>

definition hexdigit :: "nat \<Rightarrow> char" where
  "hexdigit n = (if n < 10 then char_of (48 + n) else char_of (55 + n))"

definition ishex :: "char \<Rightarrow> bool" where
  "ishex c = ((48 \<le> (of_char c :: nat) \<and> (of_char c :: nat) \<le> 57)
              \<or> (65 \<le> (of_char c :: nat) \<and> (of_char c :: nat) \<le> 70)
              \<or> (97 \<le> (of_char c :: nat) \<and> (of_char c :: nat) \<le> 102))"

definition hexval :: "char \<Rightarrow> nat" where
  "hexval c = (if (of_char c :: nat) \<le> 57 then of_char c - 48
               else if (of_char c :: nat) \<le> 70 then of_char c - 55
               else of_char c - 87)"

definition always_safe :: "char \<Rightarrow> bool" where
  \<comment> \<open>the unreserved characters: letters, digits and \<open>_.-~\<close>\<close>
  "always_safe c = ((65 \<le> (of_char c :: nat) \<and> (of_char c :: nat) \<le> 90)
                    \<or> (97 \<le> (of_char c :: nat) \<and> (of_char c :: nat) \<le> 122)
                    \<or> (48 \<le> (of_char c :: nat) \<and> (of_char c :: nat) \<le> 57)
                    \<or> c \<in> set ''_.-~'')"

definition quote_byte :: "string \<Rightarrow> char \<Rightarrow> string" where
  "quote_byte safe c =
     (if always_safe c \<or> c \<in> set safe then [c]
      else [CHR ''%'', hexdigit ((of_char c :: nat) div 16), hexdigit ((of_char c :: nat) mod 16)])"

definition quote :: "string \<Rightarrow> string \<Rightarrow> string" where
  \<comment> \<open>\<open>urllib.parse.quote(s, safe=safe)\<close>\<close>
  "quote s safe = concat (map (quote_byte safe) s)"

fun unquote :: "string \<Rightarrow> string" where
  \<comment> \<open>\<open>urllib.parse.unquote\<close>: a \<open>%\<close> followed by two hex digits is the byte they
      write, any other \<open>%\<close> stays. (Python then decodes the bytes as UTF-8 and replaces
      what is not UTF-8; the model keeps the bytes.)\<close>
  "unquote [] = []"
| "unquote (c # cs) =
     (if c = CHR ''%'' then
        (case cs of
           h1 # h2 # rest \<Rightarrow>
             (if ishex h1 \<and> ishex h2 then char_of (16 * hexval h1 + hexval h2) # unquote rest
              else c # unquote cs)
         | _ \<Rightarrow> c # unquote cs)
      else c # unquote cs)"

definition unquote_plus :: "string \<Rightarrow> string" where
  \<comment> \<open>\<open>urllib.parse.unquote_plus\<close>: \<open>+\<close> is a blank, then \<open>unquote\<close>\<close>
  "unquote_plus s = unquote (map (\<lambda>c. if c = CHR ''+'' then CHR '' '' else c) s)"

section \<open>Values, exceptions and the outside world\<close>

text \<open>
  A JSON-serialisable Python value: what \<open>json.dumps\<close> takes and \<open>json.loads\<close>
  gives. A \<open>dict\<close> is the list of its items in insertion order.
\<close>

datatype json =
    JNull
  | JBool bool
  | JNum int
  | JStr string
  | JArr "json list"
  | JObj "(string \<times> json) list"

datatype exc =
    AttributeError
  | KeyError
  | TypeError
  | UnicodeDecodeError
  | JSONDecodeError
  | URLError
  | HTTPError nat string
  | ClientError

text \<open>What the network gives for one HTTP request: no reply, or a status and a body.\<close>

datatype http_outcome = ConnFail | Reply nat string

text \<open>
  The typed view of a Lex V2 \<open>recognize_text\<close> response: the interpretations, each the
  items of its \<open>intent.slots\<close> (none when \<open>intent\<close> or \<open>slots\<close> is absent). A slot is
  \<open>None\<close> (\<open>Unfilled\<close>), a dict without \<open>value\<close> (\<open>NoValue\<close>), or a dict with a
  \<open>value\<close>, whose \<open>interpretedValue\<close> is there or not.
\<close>

datatype slot_val = Unfilled | NoValue | Value "string option"

type_synonym interp = "(string \<times> slot_val) list"

datatype lex_outcome = LexRaises | LexResponse "interp list"

text \<open>The calls to the external services, as a trace.\<close>

datatype call =
    DetectLabels string string
  | HeadObject string string
  | RecognizeText string
  | UrlOpen string string json

text \<open>
  The configuration and the external collaborators. \<open>ES_ENDPOINT\<close> and \<open>ES_INDEX\<close>
  are the module constants (the endpoint without its trailing slashes, the index name,
  \<open>photos\<close> when the variable is not set). A service is an oracle: what it
  answers depends on the time of the call (the number of external interactions so far) and
  on the request, so the same request can succeed once and fail later.
  \<open>detect_labels\<close> gives the \<open>Name\<close> of each label, \<open>head_object\<close> the \<open>Metadata\<close> of
  the object, \<open>get_credentials\<close> whether the session has credentials, \<open>urlopen\<close> the
  outcome of the HTTP request (method, URL, body). \<open>decode_utf8\<close> (the text of the
  bytes of a response, none when they are not UTF-8), \<open>json_loads\<close> and \<open>format_value\<close>
  (the text an f-string writes for a value that is not a \<open>str\<close>) are the library's.
\<close>

record env =
  ES_ENDPOINT :: string
  ES_INDEX :: string
  detect_labels :: "nat \<Rightarrow> string \<Rightarrow> string \<Rightarrow> exc + string list"
  head_object :: "nat \<Rightarrow> string \<Rightarrow> string \<Rightarrow> exc + (string \<rightharpoonup> string)"
  utcnow_isoformat :: "nat \<Rightarrow> string"
  get_credentials :: "nat \<Rightarrow> bool"
  urlopen :: "nat \<Rightarrow> string \<Rightarrow> string \<Rightarrow> json \<Rightarrow> http_outcome"
  recognize_text :: "nat \<Rightarrow> string \<Rightarrow> lex_outcome"
  decode_utf8 :: "string \<Rightarrow> string option"
  json_loads :: "string \<Rightarrow> json option"
  format_value :: "json \<Rightarrow> string"

text \<open>
  The state outside the program: the time, the content of the remote index (the document
  stored under each path) and the trace of the calls made.
\<close>

record world =
  now :: nat
  index :: "string \<rightharpoonup> json"
  calls :: "call list"

definition called :: "call \<Rightarrow> world \<Rightarrow> world" where
  \<comment> \<open>one external call: it is traced and time passes\<close>
  "called c w = w\<lparr>now := Suc (now w), calls := calls w @ [c]\<rparr>"

definition accepted :: "http_outcome \<Rightarrow> bool" where
  "accepted out = (case out of ConnFail \<Rightarrow> False | Reply s b \<Rightarrow> 200 \<le> s \<and> s < 300)"

definition es_store :: "string \<Rightarrow> string \<Rightarrow> json \<Rightarrow> http_outcome \<Rightarrow> (string \<rightharpoonup> json) \<Rightarrow> (string \<rightharpoonup> json)" where
  \<comment> \<open>the remote index service, an external collaborator (upsert, section 6 and the
      glossary of the specification): a \<open>PUT\<close> answered with success creates or overwrites
      the document at its path; nothing else changes the index\<close>
  "es_store method path body out idx =
     (if method = ''PUT'' \<and> accepted out then idx(path \<mapsto> body) else idx)"

record response =
  statusCode :: nat
  body :: json
  headers :: "(string \<times> string) list"

definition signed_urlopen :: "env \<Rightarrow> string \<Rightarrow> string \<Rightarrow> json \<Rightarrow> world \<Rightarrow> (exc + string) \<times> world" where
  \<comment> \<open>the lines the two \<open>sign_and_send_es\<close> share, up to \<open>resp.read()\<close>:
      \<open>get_credentials()\<close> is \<open>None\<close> without credentials, and
      \<open>.get_frozen_credentials()\<close> then raises; \<open>urlopen\<close> raises \<open>URLError\<close> without
      a reply and \<open>HTTPError\<close> on a status that is not 2xx\<close>
  "signed_urlopen env method path body_dict w =
     (if \<not> get_credentials env (now w) then (Inl AttributeError, w)
      else
        let url = ES_ENDPOINT env @ path;
            out = urlopen env (now w) method url body_dict;
            w' = (called (UrlOpen method url body_dict) w)
                   \<lparr>index := es_store method path body_dict out (index w)\<rparr>
        in (case out of
              ConnFail \<Rightarrow> (Inl URLError, w')
            | Reply s b \<Rightarrow>
                if 200 \<le> s \<and> s < 300 then (Inr b, w') else (Inl (HTTPError s b), w')))"

section \<open>index-photos/index.py\<close>

record s3_record =
  s3_bucket_name :: string
  s3_object_key :: string

definition sign_and_send_es_index :: "env \<Rightarrow> string \<Rightarrow> string \<Rightarrow> json \<Rightarrow> world \<Rightarrow> (exc + json) \<times> world" where
  \<comment> \<open>\<open>sign_and_send_es\<close> of index.py: the body of the response is read, decoded and
      logged; the function has no \<open>return\<close>, so its value is \<open>None\<close>, which is
      \<open>JNull\<close>\<close>
  "sign_and_send_es_index env method path body_dict w =
     (case signed_urlopen env method path body_dict w of
        (Inl e, w') \<Rightarrow> (Inl e, w')
      | (Inr resp_body, w') \<Rightarrow>
          (case decode_utf8 env resp_body of
             None \<Rightarrow> (Inl UnicodeDecodeError, w')
           | Some text \<Rightarrow> (Inr JNull, w')))"

definition get_labels_from_rekognition :: "env \<Rightarrow> string \<Rightarrow> string \<Rightarrow> world \<Rightarrow> string list \<times> world" where
  "get_labels_from_rekognition env bucket key w =
     (case detect_labels env (now w) bucket key of
        Inl e \<Rightarrow> ([], called (DetectLabels bucket key) w)
      | Inr names \<Rightarrow> (map lower names, called (DetectLabels bucket key) w))"

definition custom_labels_of :: "string \<Rightarrow> string list" where
  \<comment> \<open>the list comprehension of \<open>get_custom_labels\<close>\<close>
  "custom_labels_of raw =
     map (\<lambda>label. lower (strip label)) (filter (\<lambda>label. truthy (strip label)) (split_sep CHR '','' raw))"

definition get_custom_labels :: "env \<Rightarrow> string \<Rightarrow> string \<Rightarrow> world \<Rightarrow> string list \<times> world" where
  "get_custom_labels env bucket key w =
     (case head_object env (now w) bucket key of
        Inl e \<Rightarrow> ([], called (HeadObject bucket key) w)
      | Inr metadata \<Rightarrow>
          (case metadata ''customlabels'' of
             None \<Rightarrow> ([], called (HeadObject bucket key) w)
           | Some raw \<Rightarrow>
               if \<not> truthy raw then ([], called (HeadObject bucket key) w)
               else (custom_labels_of raw, called (HeadObject bucket key) w)))"

definition all_labels :: "string list \<Rightarrow> string list \<Rightarrow> string list" where
  \<comment> \<open>\<open>sorted(set(auto_labels + custom_labels))\<close>\<close>
  "all_labels auto_labels custom_labels = sorted_list_of_set (set (auto_labels @ custom_labels))"

definition photo_doc :: "string \<Rightarrow> string \<Rightarrow> string \<Rightarrow> string list \<Rightarrow> json" where
  "photo_doc key bucket ts labels =
     JObj [(''objectKey'', JStr key), (''bucket'', JStr bucket),
           (''createdTimestamp'', JStr ts), (''labels'', JArr (map JStr labels))]"

definition doc_path :: "env \<Rightarrow> string \<Rightarrow> string" where
  \<comment> \<open>the path of the document of an object key\<close>
  "doc_path env key = ''/'' @ ES_INDEX env @ ''/_doc/'' @ quote key []"

definition build_doc :: "env \<Rightarrow> s3_record \<Rightarrow> world \<Rightarrow> (string \<times> json) \<times> world" where
  \<comment> \<open>the body of the loop of \<open>handler\<close> down to the document: the decoded key and
      \<open>doc\<close>; reading the clock is an external interaction\<close>
  "build_doc env record w0 =
     (let bucket = s3_bucket_name record;
          key = unquote_plus (s3_object_key record);
          (auto_labels, w1) = get_labels_from_rekognition env bucket key w0;
          (custom_labels, w2) = get_custom_labels env bucket key w1;
          labels = all_labels auto_labels custom_labels;
          doc = photo_doc key bucket (utcnow_isoformat env (now w2)) labels
      in ((key, doc), w2\<lparr>now := Suc (now w2)\<rparr>))"

definition handle_record :: "env \<Rightarrow> s3_record \<Rightarrow> world \<Rightarrow> world" where
  \<comment> \<open>the body of the loop of \<open>handler\<close>: what the index call raises is logged and dropped\<close>
  "handle_record env record w0 =
     (case build_doc env record w0 of
        ((key, doc), w3) \<Rightarrow>
          (case sign_and_send_es_index env ''PUT'' (doc_path env key) doc w3 of
             (Inl e, w4) \<Rightarrow> w4
           | (Inr r, w4) \<Rightarrow> w4))"

definition handler :: "env \<Rightarrow> s3_record list \<Rightarrow> world \<Rightarrow> response \<times> world" where
  \<comment> \<open>\<open>handler(event, context)\<close>, on the list \<open>event.get('Records', [])\<close>\<close>
  "handler env records w =
     (\<lparr>statusCode = 200, body = JObj [(''message'', JStr ''OK'')], headers = []\<rparr>,
      fold (handle_record env) records w)"

section \<open>search-photos/lambda_function.py\<close>

definition sign_and_send_es :: "env \<Rightarrow> string \<Rightarrow> string \<Rightarrow> json \<Rightarrow> world \<Rightarrow> (exc + json) \<times> world" where
  \<comment> \<open>\<open>sign_and_send_es\<close> of lambda_function.py: \<open>return json.loads(resp.read()...)\<close>\<close>
  "sign_and_send_es env method path body_dict w =
     (case signed_urlopen env method path body_dict w of
        (Inl e, w') \<Rightarrow> (Inl e, w')
      | (Inr resp_body, w') \<Rightarrow>
          (case decode_utf8 env resp_body of
             None \<Rightarrow> (Inl UnicodeDecodeError, w')
           | Some text \<Rightarrow>
               (case json_loads env text of
                  None \<Rightarrow> (Inl JSONDecodeError, w')
                | Some v \<Rightarrow> (Inr v, w'))))"

definition stop :: "string list" where
  "stop = [''show'', ''me'', ''photos'', ''with'', ''and'', ''in'']"

definition fromkeys :: "string list \<Rightarrow> string list" where
  \<comment> \<open>\<open>list(dict.fromkeys(labels))\<close>: a key is inserted when it is not there yet, and
      keeps its place\<close>
  "fromkeys labels = fold (\<lambda>k d. if k \<in> set d then d else d @ [k]) labels []"

fun append_slots :: "interp \<Rightarrow> string list \<Rightarrow> exc + string list" where
  \<comment> \<open>the loop over \<open>slots.items()\<close>; a \<open>value\<close> without \<open>interpretedValue\<close> raises\<close>
  "append_slots [] labels = Inr labels"
| "append_slots ((slot_name, slot_val) # slots) labels =
     (case slot_val of
        Unfilled \<Rightarrow> append_slots slots labels
      | NoValue \<Rightarrow> append_slots slots labels
      | Value None \<Rightarrow> Inl KeyError
      | Value (Some v) \<Rightarrow> append_slots slots (labels @ [lower v]))"

fun append_interps :: "interp list \<Rightarrow> string list \<Rightarrow> exc + string list" where
  \<comment> \<open>the loop over the interpretations\<close>
  "append_interps [] labels = Inr labels"
| "append_interps (interp # interpreted) labels =
     (case append_slots interp labels of
        Inl e \<Rightarrow> Inl e
      | Inr labels' \<Rightarrow> append_interps interpreted labels')"

definition extract_labels_from_lex :: "env \<Rightarrow> string \<Rightarrow> world \<Rightarrow> string list \<times> world" where
  "extract_labels_from_lex env query w =
     (let query_lc = lower query;
          w' = called (RecognizeText query) w
      in (case recognize_text env (now w) query of
            LexRaises \<Rightarrow> (filter (\<lambda>t. t \<notin> set stop) (split query_lc), w')
          | LexResponse interpreted \<Rightarrow>
              (case append_interps interpreted [] of
                 Inl e \<Rightarrow> (filter (\<lambda>t. t \<notin> set stop) (split query_lc), w')
               | Inr labels \<Rightarrow>
                   (fromkeys (if labels = [] then filter (\<lambda>t. t \<notin> set stop) (split query_lc)
                              else labels), w'))))"

text \<open>
  The event of a search request: the key \<open>q\<close> is absent, \<open>None\<close> or a text;
  \<open>queryStringParameters\<close> is absent (or \<open>None\<close>) or a dict of texts.
\<close>

datatype field = Absent | Null | Text string

record event =
  ev_q :: field
  ev_queryStringParameters :: "(string \<times> string) list option"

definition query_of :: "event \<Rightarrow> string option" where
  \<comment> \<open>the value of \<open>q\<close> after the first \<open>if\<close> of \<open>lambda_handler\<close>\<close>
  "query_of ev =
     (case ev_q ev of
        Text s \<Rightarrow> Some s
      | Null \<Rightarrow> None
      | Absent \<Rightarrow>
          (case ev_queryStringParameters ev of
             None \<Rightarrow> None
           | Some params \<Rightarrow> if params = [] then None else map_of params ''q''))"

definition dict_get :: "json \<Rightarrow> string \<Rightarrow> json \<Rightarrow> exc + json" where
  \<comment> \<open>\<open>d.get(k, default)\<close>\<close>
  "dict_get d k dflt =
     (case d of
        JObj items \<Rightarrow> Inr (case map_of items k of Some v \<Rightarrow> v | None \<Rightarrow> dflt)
      | _ \<Rightarrow> Inl AttributeError)"

definition getitem :: "json \<Rightarrow> string \<Rightarrow> exc + json" where
  \<comment> \<open>\<open>d[k]\<close> for a string \<open>k\<close>\<close>
  "getitem d k =
     (case d of
        JObj items \<Rightarrow> (case map_of items k of Some v \<Rightarrow> Inr v | None \<Rightarrow> Inl KeyError)
      | _ \<Rightarrow> Inl TypeError)"

definition iterate :: "json \<Rightarrow> exc + json list" where
  \<comment> \<open>the elements a \<open>for\<close> loop goes through\<close>
  "iterate v =
     (case v of
        JArr xs \<Rightarrow> Inr xs
      | JObj items \<Rightarrow> Inr (map (\<lambda>(k, x). JStr k) items)
      | JStr s \<Rightarrow> Inr (map (\<lambda>c. JStr [c]) s)
      | _ \<Rightarrow> Inl TypeError)"

definition hit_result :: "env \<Rightarrow> json \<Rightarrow> exc + json" where
  \<comment> \<open>the body of the loop over the hits\<close>
  "hit_result env hit =
     (case getitem hit ''_source'' of
        Inl e \<Rightarrow> Inl e
      | Inr src \<Rightarrow>
     (case getitem src ''bucket'' of
        Inl e \<Rightarrow> Inl e
      | Inr bucket \<Rightarrow>
     (case getitem src ''objectKey'' of
        Inl e \<Rightarrow> Inl e
      | Inr object_key \<Rightarrow>
     (case object_key of
        JStr k \<Rightarrow>
          (let url = ''https://'' @ (case bucket of JStr b \<Rightarrow> b | _ \<Rightarrow> format_value env bucket)
                       @ ''.s3.amazonaws.com/'' @ quote k ''/''
           in (case getitem src ''labels'' of
                 Inl e \<Rightarrow> Inl e
               | Inr labels \<Rightarrow>
                   Inr (JObj [(''objectKey'', object_key), (''bucket'', bucket),
                              (''labels'', labels), (''url'', JStr url)])))
      | _ \<Rightarrow> Inl TypeError))))"

fun append_results :: "env \<Rightarrow> json list \<Rightarrow> json list \<Rightarrow> exc + json list" where
  "append_results env [] results = Inr results"
| "append_results env (hit # hits) results =
     (case hit_result env hit of
        Inl e \<Rightarrow> Inl e
      | Inr r \<Rightarrow> append_results env hits (results @ [r]))"

definition search_results :: "env \<Rightarrow> json \<Rightarrow> exc + json list" where
  \<comment> \<open>the \<open>try\<close> block of \<open>lambda_handler\<close> after the call of the index\<close>
  "search_results env es_response =
     (case dict_get es_response ''hits'' (JObj []) of
        Inl e \<Rightarrow> Inl e
      | Inr h \<Rightarrow>
     (case dict_get h ''hits'' (JArr []) of
        Inl e \<Rightarrow> Inl e
      | Inr hits \<Rightarrow>
     (case iterate hits of
        Inl e \<Rightarrow> Inl e
      | Inr hs \<Rightarrow> append_results env hs [])))"

definition cors :: "(string \<times> string) list" where
  "cors = [(''Access-Control-Allow-Origin'', ''*'')]"

definition query_body :: "string list \<Rightarrow> json" where
  "query_body labels =
     JObj [(''query'', JObj [(''terms'', JObj [(''labels.keyword'', JArr (map JStr labels))])])]"

definition es_path :: "env \<Rightarrow> string" where
  "es_path env = ''/'' @ ES_INDEX env @ ''/_search''"

definition lambda_handler :: "env \<Rightarrow> event \<Rightarrow> world \<Rightarrow> response \<times> world" where
  "lambda_handler env ev w =
     (case query_of ev of
        None \<Rightarrow>
          (\<lparr>statusCode = 400, body = JObj [(''error'', JStr ''Missing query parameter q'')],
            headers = cors\<rparr>, w)
      | Some query \<Rightarrow>
          if \<not> truthy query then
            (\<lparr>statusCode = 400, body = JObj [(''error'', JStr ''Missing query parameter q'')],
              headers = cors\<rparr>, w)
          else
            (case extract_labels_from_lex env query w of
               (labels, w1) \<Rightarrow>
                 if labels = [] then
                   (\<lparr>statusCode = 200, body = JObj [(''results'', JArr [])], headers = cors\<rparr>, w1)
                 else
                   (case sign_and_send_es env ''POST'' (es_path env) (query_body labels) w1 of
                      (Inl e, w2) \<Rightarrow>
                        (\<lparr>statusCode = 500, body = JObj [(''results'', JArr [])],
                          headers = cors\<rparr>, w2)
                    | (Inr es_response, w2) \<Rightarrow>
                        (case search_results env es_response of
                           Inl e \<Rightarrow>
                             (\<lparr>statusCode = 500, body = JObj [(''results'', JArr [])],
                               headers = cors\<rparr>, w2)
                         | Inr results \<Rightarrow>
                             (\<lparr>statusCode = 200, body = JObj [(''results'', JArr results)],
                               headers = cors\<rparr>, w2)))))"

subsection \<open>The tokenizer as the specification words it\<close>

fun first_seen :: "string list \<Rightarrow> string list" where
  \<comment> \<open>duplicates removed, the first occurrence wins\<close>
  "first_seen [] = []"
| "first_seen (x # xs) = x # first_seen (removeAll x xs)"

definition spec_tokenizer :: "string \<Rightarrow> string list" where
  \<comment> \<open>the lowercased query split on white space, the stop words dropped, the order kept,
      duplicates removed\<close>
  "spec_tokenizer query = first_seen (filter (\<lambda>t. t \<notin> set stop) (split (lower query)))"

section \<open>Properties of label sets, and an example environment\<close>





definition example_env :: env where
  \<comment> \<open>the detector sees a dog in a park, the object is tagged \<open>Sunny, dog\<close>, the clock
      moves, Lex is down, and the index answers every request with an empty object\<close>
  "example_env =
     \<lparr>ES_ENDPOINT = ''https://es.example'',
      ES_INDEX = ''photos'',
      detect_labels = (\<lambda>t bucket key. Inr [''Dog'', ''Park'']),
      head_object = (\<lambda>t bucket key. Inr [''customlabels'' \<mapsto> ''Sunny, dog'']),
      utcnow_isoformat = (\<lambda>t. if t < 4 then ''2024-01-01T00:00:00'' else ''2024-01-01T00:00:01''),
      get_credentials = (\<lambda>t. True),
      urlopen = (\<lambda>t method url b. Reply 200 ''{}''),
      recognize_text = (\<lambda>t query. LexRaises),
      decode_utf8 = (\<lambda>s. Some s),
      json_loads = (\<lambda>s. if s = ''{}'' then Some (JObj []) else None),
      format_value = (\<lambda>v. ''None'')\<rparr>"

definition outage_env :: env where
  \<comment> \<open>as \<open>example_env\<close>, but the detector and the index fail for the object \<open>bad.jpg\<close>\<close>
  "outage_env =
     example_env
       \<lparr>detect_labels := (\<lambda>t bucket key. if key = ''bad.jpg'' then Inl ClientError else Inr [''Dog'', ''Park'']),
        urlopen := (\<lambda>t method url b.
                      if url = ''https://es.example/photos/_doc/bad.jpg'' then ConnFail
                      else Reply 200 ''{}'')\<rparr>"

definition world0 :: world where
  "world0 = \<lparr>now = 0, index = Map.empty, calls = []\<rparr>"

section \<open>The query pipeline\<close>

lemma extract_labels_from_lex_world:
  "snd (extract_labels_from_lex env query w) = called (RecognizeText query) w"
  by (simp add: extract_labels_from_lex_def Let_def split: lex_outcome.splits sum.splits)

text \<open>
  The tokenizer of the specification against the two fall-back branches: with no usable
  slot the extraction is the tokenizer's output; when the Lex call raises it is the list of
  the tokens before duplicates are removed.
\<close>

lemma fold_fromkeys:
  "fold (\<lambda>k d. if k \<in> set d then d else d @ [k]) xs d = d @ first_seen (filter (\<lambda>k. k \<notin> set d) xs)"
proof (induction xs arbitrary: d)
  case Nil
  then show ?case by simp
next
  case (Cons x xs)
  show ?case
  proof (cases "x \<in> set d")
    case True
    then show ?thesis using Cons.IH [of d] by simp
  next
    case False
    have "removeAll x (filter (\<lambda>k. k \<notin> set d) xs) = filter (\<lambda>k. k \<notin> set (d @ [x])) xs"
      by (induction xs) auto
    then show ?thesis using False Cons.IH [of "d @ [x]"] by simp
  qed
qed

lemma fromkeys_first_seen: "fromkeys xs = first_seen xs"
  using fold_fromkeys [of xs "[]"] by (simp add: fromkeys_def)

lemma extract_no_slots:
  assumes "recognize_text env (now w) query = LexResponse interpreted"
    and "append_interps interpreted [] = Inr []"
  shows "fst (extract_labels_from_lex env query w) = spec_tokenizer query"
  using assms by (simp add: extract_labels_from_lex_def Let_def spec_tokenizer_def fromkeys_first_seen)

lemma extract_lex_fails:
  assumes "recognize_text env (now w) query = LexRaises"
  shows "fst (extract_labels_from_lex env query w) = filter (\<lambda>t. t \<notin> set stop) (split (lower query))"
    and "spec_tokenizer query = first_seen (fst (extract_labels_from_lex env query w))"
  using assms by (simp_all add: extract_labels_from_lex_def Let_def spec_tokenizer_def)

text \<open>
  C2. The claim: when the Lex call fails or gives no usable slot, the extracted labels are
  the tokenizer's output with the duplicates removed. On the query \<open>dog dog\<close> with a
  failing Lex call the \<open>except\<close> branch returns the tokens as they are, \<open>dog\<close> twice,
  where the tokenizer of the specification gives \<open>dog\<close> once.
\<close>

theorem C2_lex_failure_keeps_duplicates:
  "fst (extract_labels_from_lex (env\<lparr>recognize_text := \<lambda>t query. LexRaises\<rparr>) ''dog dog'' w)
     = [''dog'', ''dog'']
   \<and> spec_tokenizer ''dog dog'' = [''dog'']"
  by (simp add: extract_labels_from_lex_def Let_def spec_tokenizer_def split_def lower_def
      lower_char_def isupper_def isspace_def stop_def)

text \<open>
  C3. When the extraction gives no label, the handler answers 200 with an empty result
  list, and the only call made is the one to Lex: the world after the request is the world
  before it with that call added, so the index service is not called.
\<close>

theorem C3_empty_labels_short_circuit:
  assumes "query_of ev = Some query" and "truthy query"
    and "fst (extract_labels_from_lex env query w) = []"
  shows "lambda_handler env ev w =
     (\<lparr>statusCode = 200, body = JObj [(''results'', JArr [])],
       headers = [(''Access-Control-Allow-Origin'', ''*'')]\<rparr>, called (RecognizeText query) w)"
proof -
  have "extract_labels_from_lex env query w = ([], called (RecognizeText query) w)"
    using assms(3) extract_labels_from_lex_world [of env query w]
    by (cases "extract_labels_from_lex env query w") simp
  then show ?thesis
    using assms(1,2) by (simp add: lambda_handler_def cors_def)
qed

theorem C3_witness:
  "query_of \<lparr>ev_q = Text ''show me photos'', ev_queryStringParameters = None\<rparr> = Some ''show me photos''
   \<and> truthy ''show me photos''
   \<and> fst (extract_labels_from_lex example_env ''show me photos'' world0) = []
   \<and> lambda_handler example_env \<lparr>ev_q = Text ''show me photos'', ev_queryStringParameters = None\<rparr> world0 =
     (\<lparr>statusCode = 200, body = JObj [(''results'', JArr [])],
       headers = [(''Access-Control-Allow-Origin'', ''*'')]\<rparr>,
      called (RecognizeText ''show me photos'') world0)"
proof -
  have q: "query_of \<lparr>ev_q = Text ''show me photos'', ev_queryStringParameters = None\<rparr> = Some ''show me photos''"
    by (simp add: query_of_def)
  have t: "truthy ''show me photos''"
    by (simp add: truthy_def)
  have e: "fst (extract_labels_from_lex example_env ''show me photos'' world0) = []"
    by (simp add: extract_labels_from_lex_def Let_def example_env_def split_def lower_def
        lower_char_def isupper_def isspace_def stop_def)
  show ?thesis
    using q t e C3_empty_labels_short_circuit [OF q t e] by simp
qed

text \<open>
  C4. A request with no \<open>q\<close> on the event and none in \<open>queryStringParameters\<close> is
  answered 400 with the fixed error body, and the world is unchanged: no upstream call.
\<close>

theorem C4_missing_query:
  assumes "ev_q ev = Absent"
    and "(case ev_queryStringParameters ev of
            None \<Rightarrow> True
          | Some params \<Rightarrow> map_of params ''q'' = None)"
  shows "lambda_handler env ev w =
     (\<lparr>statusCode = 400, body = JObj [(''error'', JStr ''Missing query parameter q'')],
       headers = [(''Access-Control-Allow-Origin'', ''*'')]\<rparr>, w)"
  using assms by (auto simp: lambda_handler_def query_of_def cors_def split: option.splits)

theorem C4_witness:
  "ev_q \<lparr>ev_q = Absent, ev_queryStringParameters = Some [(''page'', ''2'')]\<rparr> = Absent
   \<and> (case ev_queryStringParameters \<lparr>ev_q = Absent, ev_queryStringParameters = Some [(''page'', ''2'')]\<rparr> of
         None \<Rightarrow> True
       | Some params \<Rightarrow> map_of params ''q'' = None)
   \<and> lambda_handler example_env \<lparr>ev_q = Absent, ev_queryStringParameters = Some [(''page'', ''2'')]\<rparr> world0 =
     (\<lparr>statusCode = 400, body = JObj [(''error'', JStr ''Missing query parameter q'')],
       headers = [(''Access-Control-Allow-Origin'', ''*'')]\<rparr>, world0)
   \<and> lambda_handler example_env \<lparr>ev_q = Absent, ev_queryStringParameters = None\<rparr> world0 =
     (\<lparr>statusCode = 400, body = JObj [(''error'', JStr ''Missing query parameter q'')],
       headers = [(''Access-Control-Allow-Origin'', ''*'')]\<rparr>, world0)"
  using C4_missing_query [of "\<lparr>ev_q = Absent, ev_queryStringParameters = Some [(''page'', ''2'')]\<rparr>"
                            example_env world0]
        C4_missing_query [of "\<lparr>ev_q = Absent, ev_queryStringParameters = None\<rparr>" example_env world0]
  by simp

text \<open>
  C6. When the call of the index fails (no credentials to sign with, no reply, a status
  that is not 2xx, a body that is not JSON), or when the response has not the shape the
  handler reads, the handler answers 500 with an empty result list and the cross-origin
  header.
\<close>

theorem C6_index_failure_gives_500:
  assumes "query_of ev = Some query" and "truthy query"
    and "extract_labels_from_lex env query w = (labels, w1)" and "labels \<noteq> []"
    and "fst (sign_and_send_es env ''POST'' (es_path env) (query_body labels) w1) = Inl e
         \<or> (\<exists>r e'. fst (sign_and_send_es env ''POST'' (es_path env) (query_body labels) w1) = Inr r
                  \<and> search_results env r = Inl e')"
  shows "fst (lambda_handler env ev w) =
     \<lparr>statusCode = 500, body = JObj [(''results'', JArr [])],
      headers = [(''Access-Control-Allow-Origin'', ''*'')]\<rparr>"
  using assms
  by (cases "sign_and_send_es env ''POST'' (es_path env) (query_body labels) w1")
     (auto simp: lambda_handler_def cors_def split: sum.splits)

theorem C6_witness:
  "query_of \<lparr>ev_q = Text ''dog'', ev_queryStringParameters = None\<rparr> = Some ''dog''
   \<and> truthy ''dog''
   \<and> extract_labels_from_lex (example_env\<lparr>urlopen := \<lambda>t method url b. Reply 503 ''busy''\<rparr>) ''dog'' world0
       = ([''dog''], called (RecognizeText ''dog'') world0)
   \<and> fst (sign_and_send_es (example_env\<lparr>urlopen := \<lambda>t method url b. Reply 503 ''busy''\<rparr>) ''POST''
            (es_path (example_env\<lparr>urlopen := \<lambda>t method url b. Reply 503 ''busy''\<rparr>))
            (query_body [''dog'']) (called (RecognizeText ''dog'') world0)) = Inl (HTTPError 503 ''busy'')
   \<and> fst (lambda_handler (example_env\<lparr>urlopen := \<lambda>t method url b. Reply 503 ''busy''\<rparr>)
            \<lparr>ev_q = Text ''dog'', ev_queryStringParameters = None\<rparr> world0) =
     \<lparr>statusCode = 500, body = JObj [(''results'', JArr [])],
      headers = [(''Access-Control-Allow-Origin'', ''*'')]\<rparr>"
proof -
  have q: "query_of \<lparr>ev_q = Text ''dog'', ev_queryStringParameters = None\<rparr> = Some ''dog''"
    by (simp add: query_of_def)
  have t: "truthy ''dog''"
    by (simp add: truthy_def)
  have x: "extract_labels_from_lex (example_env\<lparr>urlopen := \<lambda>t method url b. Reply 503 ''busy''\<rparr>) ''dog'' world0
       = ([''dog''], called (RecognizeText ''dog'') world0)"
    by (simp add: extract_labels_from_lex_def Let_def example_env_def split_def lower_def
        lower_char_def isupper_def isspace_def stop_def)
  have n: "[''dog''] \<noteq> []"
    by simp
  have f: "fst (sign_and_send_es (example_env\<lparr>urlopen := \<lambda>t method url b. Reply 503 ''busy''\<rparr>) ''POST''
            (es_path (example_env\<lparr>urlopen := \<lambda>t method url b. Reply 503 ''busy''\<rparr>))
            (query_body [''dog'']) (called (RecognizeText ''dog'') world0)) = Inl (HTTPError 503 ''busy'')"
    by (simp add: sign_and_send_es_def signed_urlopen_def Let_def example_env_def called_def)
  show ?thesis
    using q t x f C6_index_failure_gives_500 [OF q t x n disjI1 [OF f]] by simp
qed

text \<open>
  C7. On a success response whose body is UTF-8 text, the client of the query pipeline
  returns the parsed body (and raises when the body is not JSON); the client of the
  ingestion pipeline reads and logs the body and returns \<open>None\<close>.
\<close>

theorem C7_clients_on_success:
  assumes "get_credentials env (now w)"
    and "urlopen env (now w) method (ES_ENDPOINT env @ path) b = Reply s rb"
    and "200 \<le> s" and "s < 300"
    and "decode_utf8 env rb = Some text"
  shows "fst (sign_and_send_es env method path b w) =
           (case json_loads env text of Some v \<Rightarrow> Inr v | None \<Rightarrow> Inl JSONDecodeError)
         \<and> fst (sign_and_send_es_index env method path b w) = Inr JNull"
  using assms
  by (simp add: sign_and_send_es_def sign_and_send_es_index_def signed_urlopen_def Let_def
      split: option.splits)

theorem C7_witness:
  "get_credentials example_env (now world0)
   \<and> urlopen example_env (now world0) ''POST'' (ES_ENDPOINT example_env @ ''/photos/_search'') (query_body [''dog''])
       = Reply 200 ''{}''
   \<and> (200::nat) \<le> 200 \<and> (200::nat) < 300
   \<and> decode_utf8 example_env ''{}'' = Some ''{}''
   \<and> fst (sign_and_send_es example_env ''POST'' ''/photos/_search'' (query_body [''dog'']) world0) = Inr (JObj [])
   \<and> fst (sign_and_send_es_index example_env ''POST'' ''/photos/_search'' (query_body [''dog'']) world0) = Inr JNull"
proof -
  have c: "get_credentials example_env (now world0)"
    by (simp add: example_env_def)
  have u: "urlopen example_env (now world0) ''POST'' (ES_ENDPOINT example_env @ ''/photos/_search'') (query_body [''dog''])
       = Reply 200 ''{}''"
    by (simp add: example_env_def)
  have d: "decode_utf8 example_env ''{}'' = Some ''{}''"
    by (simp add: example_env_def)
  have j: "json_loads example_env ''{}'' = Some (JObj [])"
    by (simp add: example_env_def)
  show ?thesis
    using c u d j C7_clients_on_success [OF c u _ _ d] by simp
qed

text \<open>
  The client of index.py on a success response with the body \<open>{}\<close>: what it returns is
  not the parsed body.
\<close>

theorem C7_ingestion_client_returns_none:
  "get_credentials example_env (now world0)
   \<and> urlopen example_env (now world0) ''PUT'' (ES_ENDPOINT example_env @ ''/photos/_doc/a.jpg'') (JObj [])
       = Reply 200 ''{}''
   \<and> decode_utf8 example_env ''{}'' = Some ''{}''
   \<and> json_loads example_env ''{}'' = Some (JObj [])
   \<and> fst (sign_and_send_es_index example_env ''PUT'' ''/photos/_doc/a.jpg'' (JObj []) world0) \<noteq> Inr (JObj [])"
  by (simp add: sign_and_send_es_index_def signed_urlopen_def Let_def example_env_def world0_def)

text \<open>
  C10. A \<open>q\<close> that is the empty string, on the event or (when the event has no \<open>q\<close>
  of its own) in \<open>queryStringParameters\<close>, is answered like a missing one: 400 with the
  fixed error body, and no upstream call.
\<close>

theorem C10_empty_query:
  assumes "ev_q ev = Text []
           \<or> (ev_q ev = Absent \<and> ev_queryStringParameters ev = Some params \<and> map_of params ''q'' = Some [])"
  shows "lambda_handler env ev w =
     (\<lparr>statusCode = 400, body = JObj [(''error'', JStr ''Missing query parameter q'')],
       headers = [(''Access-Control-Allow-Origin'', ''*'')]\<rparr>, w)"
  using assms
  by (auto simp: lambda_handler_def query_of_def cors_def truthy_def split: option.splits)

theorem C10_witness:
  "lambda_handler example_env \<lparr>ev_q = Text [], ev_queryStringParameters = Some [(''q'', ''dog'')]\<rparr> world0 =
     (\<lparr>statusCode = 400, body = JObj [(''error'', JStr ''Missing query parameter q'')],
       headers = [(''Access-Control-Allow-Origin'', ''*'')]\<rparr>, world0)
   \<and> lambda_handler example_env \<lparr>ev_q = Absent, ev_queryStringParameters = Some [(''q'', [])]\<rparr> world0 =
     (\<lparr>statusCode = 400, body = JObj [(''error'', JStr ''Missing query parameter q'')],
       headers = [(''Access-Control-Allow-Origin'', ''*'')]\<rparr>, world0)"
  using C10_empty_query [of "\<lparr>ev_q = Text [], ev_queryStringParameters = Some [(''q'', ''dog'')]\<rparr>"
                            "[]" example_env world0]
        C10_empty_query [of "\<lparr>ev_q = Absent, ev_queryStringParameters = Some [(''q'', [])]\<rparr>"
                            "[(''q'', [])]" example_env world0]
  by simp

section \<open>The ingestion pipeline\<close>

subsection \<open>The document of one record\<close>

lemma get_labels_from_rekognition_world:
  "snd (get_labels_from_rekognition env bucket key w) = called (DetectLabels bucket key) w"
  by (simp add: get_labels_from_rekognition_def split: sum.splits)

lemma get_custom_labels_world:
  "snd (get_custom_labels env bucket key w) = called (HeadObject bucket key) w"
  by (simp add: get_custom_labels_def split: sum.splits option.splits)

lemma build_doc_eq:
  "build_doc env record w =
     ((unquote_plus (s3_object_key record),
       photo_doc (unquote_plus (s3_object_key record)) (s3_bucket_name record)
         (utcnow_isoformat env (now w + 2))
         (all_labels
            (fst (get_labels_from_rekognition env (s3_bucket_name record) (unquote_plus (s3_object_key record)) w))
            (fst (get_custom_labels env (s3_bucket_name record) (unquote_plus (s3_object_key record))
                    (called (DetectLabels (s3_bucket_name record) (unquote_plus (s3_object_key record))) w))))),
      w\<lparr>now := now w + 3,
        calls := calls w @ [DetectLabels (s3_bucket_name record) (unquote_plus (s3_object_key record)),
                            HeadObject (s3_bucket_name record) (unquote_plus (s3_object_key record))]\<rparr>)"
proof -
  let ?b = "s3_bucket_name record" and ?k = "unquote_plus (s3_object_key record)"
  obtain a w1 where a: "get_labels_from_rekognition env ?b ?k w = (a, w1)"
    by (cases "get_labels_from_rekognition env ?b ?k w")
  then have w1: "w1 = called (DetectLabels ?b ?k) w"
    using get_labels_from_rekognition_world [of env ?b ?k w] by simp
  obtain c w2 where c: "get_custom_labels env ?b ?k w1 = (c, w2)"
    by (cases "get_custom_labels env ?b ?k w1")
  then have w2: "w2 = called (HeadObject ?b ?k) w1"
    using get_custom_labels_world [of env ?b ?k w1] by simp
  show ?thesis
    using a c by (simp add: build_doc_def Let_def w1 w2 called_def)
qed


subsection \<open>Label fusion\<close>















subsection \<open>One record\<close>

lemma signed_urlopen_world:
  "snd (signed_urlopen env method path d w) =
     (if \<not> get_credentials env (now w) then w
      else (called (UrlOpen method (ES_ENDPOINT env @ path) d) w)
             \<lparr>index := es_store method path d (urlopen env (now w) method (ES_ENDPOINT env @ path) d) (index w)\<rparr>)"
  by (simp add: signed_urlopen_def Let_def split: http_outcome.splits)

lemma sign_and_send_es_index_world:
  "snd (sign_and_send_es_index env method path d w) = snd (signed_urlopen env method path d w)"
  by (simp add: sign_and_send_es_index_def split: prod.splits sum.splits option.splits)

lemma handle_record_eq:
  "handle_record env record w =
     snd (signed_urlopen env ''PUT'' (doc_path env (fst (fst (build_doc env record w))))
            (snd (fst (build_doc env record w))) (snd (build_doc env record w)))"
proof -
  obtain key doc w3 where b: "build_doc env record w = ((key, doc), w3)"
    by (cases "build_doc env record w") auto
  obtain r w4 where s: "sign_and_send_es_index env ''PUT'' (doc_path env key) doc w3 = (r, w4)"
    by (cases "sign_and_send_es_index env ''PUT'' (doc_path env key) doc w3")
  have "handle_record env record w = w4"
    using b s by (simp add: handle_record_def split: sum.splits)
  moreover have "w4 = snd (signed_urlopen env ''PUT'' (doc_path env key) doc w3)"
    using s sign_and_send_es_index_world [of env "''PUT''" "doc_path env key" doc w3] by simp
  ultimately show ?thesis using b by simp
qed


lemma example_custom: "custom_labels_of ''Sunny, dog'' = [''sunny'', ''dog'']"
  by code_simp

lemma example_labels: "all_labels [''dog'', ''park''] [''sunny'', ''dog''] = [''dog'', ''park'', ''sunny'']"
  by code_simp

lemma example_key: "unquote_plus ''a+b.jpg'' = ''a b.jpg''"
  by code_simp

lemma example_id: "quote ''a b.jpg'' [] = ''a%20b.jpg''"
  by code_simp



subsection \<open>The world after one record and after a batch\<close>

lemma handle_record_world:
  "handle_record env record w =
     (if get_credentials env (now w + 3) then
        w\<lparr>now := now w + 4,
          calls := calls w @ [DetectLabels (s3_bucket_name record) (unquote_plus (s3_object_key record)),
                              HeadObject (s3_bucket_name record) (unquote_plus (s3_object_key record)),
                              UrlOpen ''PUT'' (ES_ENDPOINT env @ doc_path env (unquote_plus (s3_object_key record)))
                                (snd (fst (build_doc env record w)))],
          index := es_store ''PUT'' (doc_path env (unquote_plus (s3_object_key record)))
                     (snd (fst (build_doc env record w)))
                     (urlopen env (now w + 3) ''PUT''
                        (ES_ENDPOINT env @ doc_path env (unquote_plus (s3_object_key record)))
                        (snd (fst (build_doc env record w))))
                     (index w)\<rparr>
      else
        w\<lparr>now := now w + 3,
          calls := calls w @ [DetectLabels (s3_bucket_name record) (unquote_plus (s3_object_key record)),
                              HeadObject (s3_bucket_name record) (unquote_plus (s3_object_key record))]\<rparr>)"
  by (simp add: handle_record_eq signed_urlopen_world called_def build_doc_eq)

lemma handle_record_calls:
  "\<exists>ys. calls (handle_record env record w) = calls w @ ys"
  by (simp add: handle_record_world)

lemma fold_handle_record_calls:
  "\<exists>ys. calls (fold (handle_record env) records w) = calls w @ ys"
proof (induction records arbitrary: w)
  case Nil
  then show ?case by simp
next
  case (Cons r rs)
  obtain ys where "calls (handle_record env r w) = calls w @ ys"
    using handle_record_calls by blast
  moreover obtain zs where "calls (fold (handle_record env) rs (handle_record env r w))
      = calls (handle_record env r w) @ zs"
    using Cons.IH by blast
  ultimately show ?case by simp
qed

lemma handle_record_index_frame:
  "p \<noteq> doc_path env (unquote_plus (s3_object_key record)) \<Longrightarrow> index (handle_record env record w) p = index w p"
  by (simp add: handle_record_world es_store_def)

lemma fold_handle_record_index_frame:
  "\<forall>r \<in> set records. doc_path env (unquote_plus (s3_object_key r)) \<noteq> p
   \<Longrightarrow> index (fold (handle_record env) records w) p = index w p"
  by (induction records arbitrary: w) (auto simp: handle_record_index_frame)


subsection \<open>The document path determines the key\<close>

lemma of_char_hexdigit:
  "n < 16 \<Longrightarrow> (of_char (hexdigit n) :: nat) = (if n < 10 then 48 + n else 55 + n)"
  by (simp add: hexdigit_def)

lemma hexdigit_inj:
  assumes "m < 16" and "n < 16" and "hexdigit m = hexdigit n"
  shows "m = n"
proof -
  have "(of_char (hexdigit m) :: nat) = of_char (hexdigit n)"
    using assms(3) by simp
  then show ?thesis
    using assms(1,2) by (simp add: of_char_hexdigit split: if_splits)
qed

lemma of_char_less: "(of_char c :: nat) < 256"
proof -
  have "(of_char c :: nat) mod 256 < 256" by simp
  then show ?thesis by (simp only: of_char_mod_256)
qed

lemma not_always_safe_percent: "always_safe c \<Longrightarrow> c \<noteq> CHR ''%''"
  by (auto simp: always_safe_def)

lemma of_char_split: "(of_char c :: nat) = 16 * (of_char c div 16) + of_char c mod 16"
  by simp

lemma quote_byte_inj:
  assumes "quote_byte [] c @ xs = quote_byte [] d @ ys"
  shows "c = d \<and> xs = ys"
proof (cases "always_safe c")
  case True
  then show ?thesis
    using assms not_always_safe_percent [of c] not_always_safe_percent [of d]
    by (cases "always_safe d") (auto simp: quote_byte_def)
next
  case False
  show ?thesis
  proof (cases "always_safe d")
    case True
    then show ?thesis
      using assms False not_always_safe_percent [of d] by (auto simp: quote_byte_def)
  next
    case d: False
    have lt: "(of_char x :: nat) div 16 < 16" for x :: char
      using of_char_less [of x] by (simp add: less_mult_imp_div_less)
    from assms False d have h: "hexdigit ((of_char c :: nat) div 16) = hexdigit ((of_char d :: nat) div 16)"
      "hexdigit ((of_char c :: nat) mod 16) = hexdigit ((of_char d :: nat) mod 16)" "xs = ys"
      by (auto simp: quote_byte_def)
    have "(of_char c :: nat) div 16 = of_char d div 16"
      using hexdigit_inj [OF lt lt h(1)] .
    moreover have "(of_char c :: nat) mod 16 = of_char d mod 16"
      using hexdigit_inj [OF _ _ h(2)] by simp
    ultimately have "(of_char c :: nat) = of_char d"
      by (metis div_mult_mod_eq)
    then show ?thesis using h(3) by simp
  qed
qed

lemma quote_byte_not_Nil: "quote_byte safe c \<noteq> []"
  by (simp add: quote_byte_def)

lemma quote_inj: "quote a [] = quote b [] \<Longrightarrow> a = b"
proof (induction a arbitrary: b)
  case Nil
  then show ?case
    by (cases b) (auto simp: quote_def quote_byte_not_Nil)
next
  case (Cons c cs)
  show ?case
  proof (cases b)
    case Nil
    then show ?thesis
      using Cons.prems by (auto simp: quote_def quote_byte_not_Nil)
  next
    case (Cons d ds)
    then have "quote_byte [] c @ quote cs [] = quote_byte [] d @ quote ds []"
      using Cons.prems by (simp add: quote_def)
    then have "c = d \<and> quote cs [] = quote ds []"
      by (rule quote_byte_inj)
    then show ?thesis
      using Cons.IH Cons by simp
  qed
qed

lemma doc_path_inj: "doc_path env a = doc_path env b \<longleftrightarrow> a = b"
  by (auto simp: doc_path_def dest: quote_inj)


text \<open>
  C5. In a batch, whatever the detector, the metadata read and the index did for the other
  records: the handler returns its 200 response; the detector and the metadata are called
  for record \<open>j\<close>; with credentials, the \<open>PUT\<close> of its document is sent; and when the
  index accepts that \<open>PUT\<close> and no later record of the batch has the same key, the
  document of record \<open>j\<close> is in the index after the batch.
\<close>

theorem C5_batch_isolation:
  fixes env records j w
  defines "wj \<equiv> fold (handle_record env) (take j records) w"
    and "bucket \<equiv> s3_bucket_name (records ! j)"
    and "key \<equiv> unquote_plus (s3_object_key (records ! j))"
  defines "doc \<equiv> snd (fst (build_doc env (records ! j) wj))"
  assumes "j < length records"
  shows "fst (handler env records w) =
           \<lparr>statusCode = 200, body = JObj [(''message'', JStr ''OK'')], headers = []\<rparr>
       \<and> (\<exists>pre post. calls (snd (handler env records w)) =
              pre @ [DetectLabels bucket key, HeadObject bucket key] @ post)
       \<and> (get_credentials env (now wj + 3) \<longrightarrow>
            UrlOpen ''PUT'' (ES_ENDPOINT env @ doc_path env key) doc \<in> set (calls (snd (handler env records w))))
       \<and> (get_credentials env (now wj + 3)
            \<and> accepted (urlopen env (now wj + 3) ''PUT'' (ES_ENDPOINT env @ doc_path env key) doc)
            \<and> key \<notin> set (map (\<lambda>r. unquote_plus (s3_object_key r)) (drop (Suc j) records))
          \<longrightarrow> index (snd (handler env records w)) (doc_path env key) = Some doc)"
proof -
  let ?W = "handle_record env (records ! j) wj"
  let ?F = "fold (handle_record env) (drop (Suc j) records) ?W"
  have split: "records = take j records @ records ! j # drop (Suc j) records"
    using assms(5) by (rule id_take_nth_drop)
  have "fold (handle_record env) records w
          = fold (handle_record env) (take j records @ records ! j # drop (Suc j) records) w"
    using split by simp
  then have final: "snd (handler env records w) = ?F"
    by (simp add: handler_def wj_def)
  obtain zs where zs: "calls ?F = calls ?W @ zs"
    using fold_handle_record_calls by blast
  have cw: "\<exists>us. calls ?W = calls wj @ [DetectLabels bucket key, HeadObject bucket key] @ us"
    by (simp add: handle_record_world bucket_def key_def)
  have c3: "\<exists>pre post. calls ?F = pre @ [DetectLabels bucket key, HeadObject bucket key] @ post"
  proof -
    obtain us where "calls ?W = calls wj @ [DetectLabels bucket key, HeadObject bucket key] @ us"
      using cw by blast
    then have "calls ?F = calls wj @ [DetectLabels bucket key, HeadObject bucket key] @ (us @ zs)"
      using zs by simp
    then show ?thesis by blast
  qed
  have c4: "UrlOpen ''PUT'' (ES_ENDPOINT env @ doc_path env key) doc \<in> set (calls ?F)"
    if "get_credentials env (now wj + 3)"
  proof -
    have "UrlOpen ''PUT'' (ES_ENDPOINT env @ doc_path env key) doc \<in> set (calls ?W)"
      using that by (simp add: handle_record_world key_def doc_def)
    then show ?thesis using zs by simp
  qed
  have c5: "index ?F (doc_path env key) = Some doc"
    if "get_credentials env (now wj + 3)"
      and "accepted (urlopen env (now wj + 3) ''PUT'' (ES_ENDPOINT env @ doc_path env key) doc)"
      and "key \<notin> set (map (\<lambda>r. unquote_plus (s3_object_key r)) (drop (Suc j) records))"
  proof -
    have "\<forall>r \<in> set (drop (Suc j) records). doc_path env (unquote_plus (s3_object_key r)) \<noteq> doc_path env key"
      using that(3) by (auto simp: doc_path_inj)
    then have "index ?F (doc_path env key) = index ?W (doc_path env key)"
      by (rule fold_handle_record_index_frame)
    also have "\<dots> = Some doc"
      using that(1,2) by (simp add: handle_record_world es_store_def key_def doc_def)
    finally show ?thesis .
  qed
  show ?thesis
    using c3 c4 c5 by (simp add: final) (simp add: handler_def)
qed


subsection \<open>Ingesting an object again\<close>

lemma rekognition_labels:
  "fst (get_labels_from_rekognition env bucket key w) =
     (case detect_labels env (now w) bucket key of Inl e \<Rightarrow> [] | Inr names \<Rightarrow> map lower names)"
  by (simp add: get_labels_from_rekognition_def split: sum.splits)

lemma custom_labels:
  "fst (get_custom_labels env bucket key w) =
     (case head_object env (now w) bucket key of
        Inl e \<Rightarrow> []
      | Inr metadata \<Rightarrow>
          (case metadata ''customlabels'' of
             None \<Rightarrow> []
           | Some raw \<Rightarrow> if \<not> truthy raw then [] else custom_labels_of raw))"
  by (simp add: get_custom_labels_def split: sum.splits option.splits)




lemma example_lower: "lower ''Dog'' = ''dog''" "lower ''Park'' = ''park''"
  by code_simp+







lemma bad_key: "unquote_plus ''bad.jpg'' = ''bad.jpg''"
  by code_simp

lemma bad_path: "doc_path outage_env ''bad.jpg'' = ''/photos/_doc/bad.jpg''"
proof -
  have "quote ''bad.jpg'' [] = ''bad.jpg''"
    by code_simp
  then show ?thesis
    by (simp add: doc_path_def outage_env_def example_env_def)
qed

lemma outage_path: "doc_path outage_env ''a b.jpg'' = ''/photos/_doc/a%20b.jpg''"
  by (simp add: doc_path_def example_id outage_env_def example_env_def)

lemma outage_first:
  "handle_record outage_env \<lparr>s3_bucket_name = ''b1'', s3_object_key = ''bad.jpg''\<rparr> world0 =
     world0\<lparr>now := 4,
            calls := [DetectLabels ''b1'' ''bad.jpg'', HeadObject ''b1'' ''bad.jpg'',
                      UrlOpen ''PUT'' ''https://es.example/photos/_doc/bad.jpg''
                        (snd (fst (build_doc outage_env \<lparr>s3_bucket_name = ''b1'', s3_object_key = ''bad.jpg''\<rparr> world0)))]\<rparr>"
  by (simp add: handle_record_world bad_key bad_path es_store_def accepted_def)
     (simp add: outage_env_def example_env_def world0_def)

lemma outage_doc:
  "snd (fst (build_doc outage_env \<lparr>s3_bucket_name = ''b1'', s3_object_key = ''a+b.jpg''\<rparr> w)) =
     JObj [(''objectKey'', JStr ''a b.jpg''), (''bucket'', JStr ''b1''),
           (''createdTimestamp'', JStr (if now w + 2 < 4 then ''2024-01-01T00:00:00'' else ''2024-01-01T00:00:01'')),
           (''labels'', JArr [JStr ''dog'', JStr ''park'', JStr ''sunny''])]"
  by (simp add: build_doc_eq photo_doc_def example_key rekognition_labels custom_labels called_def
      truthy_def example_lower example_custom example_labels outage_env_def example_env_def)

theorem C5_witness:
  "(1::nat) < length [\<lparr>s3_bucket_name = ''b1'', s3_object_key = ''bad.jpg''\<rparr>,
                      \<lparr>s3_bucket_name = ''b1'', s3_object_key = ''a+b.jpg''\<rparr>]
   \<and> detect_labels outage_env 0 ''b1'' ''bad.jpg'' = Inl ClientError
   \<and> urlopen outage_env 3 ''PUT'' ''https://es.example/photos/_doc/bad.jpg''
        (snd (fst (build_doc outage_env \<lparr>s3_bucket_name = ''b1'', s3_object_key = ''bad.jpg''\<rparr> world0))) = ConnFail
   \<and> fst (handler outage_env [\<lparr>s3_bucket_name = ''b1'', s3_object_key = ''bad.jpg''\<rparr>,
                               \<lparr>s3_bucket_name = ''b1'', s3_object_key = ''a+b.jpg''\<rparr>] world0)
       = \<lparr>statusCode = 200, body = JObj [(''message'', JStr ''OK'')], headers = []\<rparr>
   \<and> index (snd (handler outage_env [\<lparr>s3_bucket_name = ''b1'', s3_object_key = ''bad.jpg''\<rparr>,
                                      \<lparr>s3_bucket_name = ''b1'', s3_object_key = ''a+b.jpg''\<rparr>] world0))
        ''/photos/_doc/a%20b.jpg''
       = Some (JObj [(''objectKey'', JStr ''a b.jpg''), (''bucket'', JStr ''b1''),
                     (''createdTimestamp'', JStr ''2024-01-01T00:00:01''),
                     (''labels'', JArr [JStr ''dog'', JStr ''park'', JStr ''sunny''])])"
proof -
  let ?bad = "\<lparr>s3_bucket_name = ''b1'', s3_object_key = ''bad.jpg''\<rparr>"
  let ?good = "\<lparr>s3_bucket_name = ''b1'', s3_object_key = ''a+b.jpg''\<rparr>"
  have l: "(1::nat) < length [?bad, ?good]"
    by simp
  have d: "detect_labels outage_env 0 ''b1'' ''bad.jpg'' = Inl ClientError"
    by (simp add: outage_env_def)
  have u: "urlopen outage_env 3 ''PUT'' ''https://es.example/photos/_doc/bad.jpg''
        (snd (fst (build_doc outage_env ?bad world0))) = ConnFail"
    by (simp add: outage_env_def)
  have c: "get_credentials outage_env t" for t
    by (simp add: outage_env_def example_env_def)
  have a: "accepted (urlopen outage_env t ''PUT'' (ES_ENDPOINT outage_env @ ''/photos/_doc/a%20b.jpg'') b)" for t b
    by (simp add: outage_env_def example_env_def accepted_def)
  show ?thesis
    using l d u C5_batch_isolation [OF l, of outage_env world0]
    by (simp add: outage_first c a example_key outage_path outage_doc)
qed

end
